theory Spec2Isabelle
  imports Complex_Main "HOL-Library.Multiset" "HOL-Library.Sublist"
begin

section \<open>JSON values and the JavaScript operations applied to them\<close>

text \<open>
  The handler of \<^verbatim>\<open>supabase/functions/classify-breed/index.ts\<close> works on untyped
  (\<^verbatim>\<open>any\<close>) values produced by \<^verbatim>\<open>JSON.parse\<close>: the request body and the body of the
  classifier's answer. They are modelled by the datatype of JSON values, extended with
  \<^verbatim>\<open>undefined\<close> (the value of a missing property).

  Numbers: a JSON number is represented by its exact value, a real number. The model
  therefore leaves out the infinities (\<^verbatim>\<open>JSON.parse("1e999")\<close>), negative zero and the
  representation error of IEEE doubles; \<^verbatim>\<open>NaN\<close> only occurs as the result of a numeric
  conversion and is the value \<open>None\<close> there. An object is an association list read
  with \<open>map_of\<close>.
\<close>

datatype jsval =
    JUndefined
  | JNull
  | JBool bool
  | JNum real
  | JStr string
  | JArr "jsval list"
  | JObj "(string \<times> jsval) list"

text \<open>Everything the code throws is an instance of \<^verbatim>\<open>Error\<close> and carries a message.\<close>

datatype js_error = Error string | TypeError string | SyntaxError string | RangeError string

fun message :: "js_error \<Rightarrow> string" where
  "message (Error m) = m"
| "message (TypeError m) = m"
| "message (SyntaxError m) = m"
| "message (RangeError m) = m"

text \<open>Truthiness, as tested by \<^verbatim>\<open>!x\<close>, \<^verbatim>\<open>x || y\<close> and \<^verbatim>\<open>x && y\<close>.\<close>

fun truthy :: "jsval \<Rightarrow> bool" where
  "truthy JUndefined = False"
| "truthy JNull = False"
| "truthy (JBool b) = b"
| "truthy (JNum r) = (r \<noteq> 0)"
| "truthy (JStr s) = (s \<noteq> [])"
| "truthy (JArr xs) = True"
| "truthy (JObj kvs) = True"

text \<open>
  Reading a property \<^verbatim>\<open>v.k\<close>, for the keys the handler reads (\<^verbatim>\<open>image_url\<close>,
  \<^verbatim>\<open>animal_id\<close>, \<^verbatim>\<open>user_id\<close>, \<^verbatim>\<open>animal_type\<close>, \<^verbatim>\<open>predictions\<close>, \<^verbatim>\<open>class\<close>,
  \<^verbatim>\<open>predicted_class\<close>, \<^verbatim>\<open>confidence\<close>), none of which exists on a prototype: an object
  gives its own property or \<^verbatim>\<open>undefined\<close>, any other value except \<^verbatim>\<open>null\<close> and
  \<^verbatim>\<open>undefined\<close> gives \<^verbatim>\<open>undefined\<close>, and \<^verbatim>\<open>null\<close> and \<^verbatim>\<open>undefined\<close> throw.
\<close>

fun property :: "jsval \<Rightarrow> string \<Rightarrow> jsval" where
  "property (JObj kvs) k = (case map_of kvs k of Some v \<Rightarrow> v | None \<Rightarrow> JUndefined)"
| "property v k = JUndefined"

fun get_prop :: "jsval \<Rightarrow> string \<Rightarrow> js_error + jsval" where
  "get_prop JNull k = Inl (TypeError (''Cannot read properties of null (reading '' @ k @ '')''))"
| "get_prop JUndefined k =
     Inl (TypeError (''Cannot read properties of undefined (reading '' @ k @ '')''))"
| "get_prop v k = Inr (property v k)"

text \<open>\<^verbatim>\<open>v.length\<close> of a truthy value: arrays and strings have it built in.\<close>

fun js_length :: "jsval \<Rightarrow> jsval" where
  "js_length (JArr xs) = JNum (of_nat (length xs))"
| "js_length (JStr s) = JNum (of_nat (length s))"
| "js_length v = property v ''length''"

text \<open>
  A template literal converts each interpolated value to a string. For a value that came
  out of \<^verbatim>\<open>JSON.parse\<close> this throws a \<^verbatim>\<open>TypeError\<close> exactly when the conversion meets
  an object with an own property \<^verbatim>\<open>toString\<close> (which is then not callable, and the
  inherited \<^verbatim>\<open>valueOf\<close> returns the object itself); an array converts its elements.
\<close>

fun template_throws :: "jsval \<Rightarrow> bool" where
  "template_throws (JObj kvs) = (''toString'' \<in> fst ` set kvs)"
| "template_throws (JArr xs) = (\<exists>x\<in>set xs. template_throws x)"
| "template_throws v = False"

text \<open>
  \<^verbatim>\<open>Number.prototype.toFixed(2)\<close> followed by \<^verbatim>\<open>parseFloat\<close>: the integer \<open>n\<close> with
  \<open>n / 100\<close> closest to the magnitude, the larger one of two; from \<open>10\<^sup>2\<^sup>1\<close> on
  \<^verbatim>\<open>toFixed\<close> prints the number itself.
\<close>

definition toFixed2 :: "real \<Rightarrow> real" where
  "toFixed2 x =
     (if 10 ^ 21 \<le> \<bar>x\<bar> then x
      else if x < 0 then - (of_int \<lfloor>(- x) * 100 + 1 / 2\<rfloor> / 100)
      else of_int \<lfloor>x * 100 + 1 / 2\<rfloor> / 100)"

text \<open>Decimal digits of a number, for the status code inside an error message.\<close>

fun show_nat :: "nat \<Rightarrow> string" where
  "show_nat n =
     (if n < 10 then [''0123456789'' ! n]
      else show_nat (n div 10) @ [''0123456789'' ! (n mod 10)])"

declare show_nat.simps [simp del]

section \<open>The world outside the handler\<close>

record blob =
  blob_bytes :: "nat list"
  blob_type :: string

record fetch_request =
  url :: string
  http_method :: string
  req_headers :: "(string \<times> string) list"
  req_body :: "jsval option"

text \<open>
  A response of \<^verbatim>\<open>fetch\<close>: \<open>resp_blob\<close> is what \<^verbatim>\<open>.blob()\<close> resolves to and
  \<open>resp_json\<close> what \<^verbatim>\<open>.json()\<close> resolves to (\<open>Inl\<close> when the promise rejects).
\<close>

record http_response =
  status :: nat
  statusText :: string
  resp_blob :: "js_error + blob"
  resp_json :: "js_error + jsval"

datatype fetch_result = NetworkError string | HttpResponse http_response

definition ok :: "http_response \<Rightarrow> bool" where
  "ok r = (200 \<le> status r \<and> status r \<le> 299)"

record prediction =
  breed :: jsval
  confidence :: real

record animal_row =
  row_user_id :: jsval
  row_animal_id :: jsval
  row_animal_type :: jsval
  predicted_breed :: jsval
  confidence_score :: real
  row_image_url :: string
  verification_status :: string

record upsert_call =
  upsert_table :: string
  upsert_row :: animal_row
  on_conflict :: string

record log_row =
  log_animal_record_id :: string
  log_image_url :: string
  predicted_breeds :: "prediction list"
  model_version :: string
  log_processing_time_ms :: int

record insert_call =
  insert_table :: string
  insert_row :: log_row

text \<open>
  Every external collaborator is a field of the world: the URL parser
  (\<^verbatim>\<open>new URL(s).pathname\<close>, \<open>None\<close> when the constructor throws), the storage service,
  \<^verbatim>\<open>fetch\<close>, the base64 encoding \<^verbatim>\<open>btoa(String.fromCharCode(...bytes))\<close> (which throws a
  \<^verbatim>\<open>RangeError\<close> when the bytes exceed the engine's argument limit), the numeric
  conversion of strings, arrays and objects, the datastore and the clock. The clients of
  storage and of the datastore resolve to \<^verbatim>\<open>{ data, error }\<close> and do not reject:
  \<open>Inl\<close> is the error's message, \<open>Inr\<close> the data (for the upsert, the identifier of the
  written row). The messages of the errors that the engine raises are representative.
\<close>

record world =
  url_pathname :: "string \<Rightarrow> string option"
  storage_download :: "string \<Rightarrow> string \<Rightarrow> string + blob"
  fetch :: "fetch_request \<Rightarrow> fetch_result"
  encode_base64 :: "nat list \<Rightarrow> js_error + string"
  coerce_number :: "jsval \<Rightarrow> js_error + real option"
  upsert :: "upsert_call \<Rightarrow> string + string"
  insert_log :: "insert_call \<Rightarrow> string option"
  now_start :: int
  now_end :: int

datatype level = LLog | LWarn | LError

text \<open>
  The trace of a request: console output (the literal text and the values printed with
  it) and the calls made to the collaborators, in the order in which they happen.
\<close>

datatype event =
    Console level string "jsval list"
  | StorageDownload string string
  | Fetch fetch_request
  | Upsert upsert_call
  | Insert insert_call

section \<open>The Inference Client (lines 79 to 128)\<close>

text \<open>
  \<^verbatim>\<open>ToNumber\<close>, used by the subtraction in the comparator and by \<^verbatim>\<open>length > 0\<close>. The
  result is \<open>Inr None\<close> for \<^verbatim>\<open>NaN\<close>; strings, arrays and objects are converted by the
  engine (\<open>coerce_number\<close>), which can throw.
\<close>

fun to_number :: "world \<Rightarrow> jsval \<Rightarrow> js_error + real option" where
  "to_number w JUndefined = Inr None"
| "to_number w JNull = Inr (Some 0)"
| "to_number w (JBool b) = Inr (Some (if b then 1 else 0))"
| "to_number w (JNum r) = Inr (Some r)"
| "to_number w v = coerce_number w v"

text \<open>
  The comparator \<^verbatim>\<open>(a, b) => b.confidence - a.confidence\<close>, with the treatment of its
  result by \<^verbatim>\<open>Array.prototype.sort\<close>: \<^verbatim>\<open>NaN\<close> counts as \<open>0\<close>.
\<close>

definition sort_compare :: "world \<Rightarrow> jsval \<Rightarrow> jsval \<Rightarrow> js_error + real" where
  "sort_compare w a b =
     (case get_prop b ''confidence'' of
        Inl e \<Rightarrow> Inl e
      | Inr cb \<Rightarrow>
          (case get_prop a ''confidence'' of
             Inl e \<Rightarrow> Inl e
           | Inr ca \<Rightarrow>
               (case to_number w cb of
                  Inl e \<Rightarrow> Inl e
                | Inr nb \<Rightarrow>
                    (case to_number w ca of
                       Inl e \<Rightarrow> Inl e
                     | Inr na \<Rightarrow>
                         (case (nb, na) of
                            (Some x, Some y) \<Rightarrow> Inr (x - y)
                          | _ \<Rightarrow> Inr 0)))))"

text \<open>
  \<^verbatim>\<open>Array.prototype.sort\<close> is stable, and it throws when the comparator throws. For a
  comparator that is a total preorder every stable sort returns the same list; the model
  is the insertion sort: an element goes in front of the first element that the comparator
  does not put before it. Where the comparator is not consistent (it answers \<^verbatim>\<open>NaN\<close>)
  the language leaves the order to the engine, and the model's order is one of those
  allowed; the result is a permutation of the array in every engine.
\<close>

fun insert_sorted :: "world \<Rightarrow> jsval \<Rightarrow> jsval list \<Rightarrow> js_error + jsval list" where
  "insert_sorted w x [] = Inr [x]"
| "insert_sorted w x (y # ys) =
     (case sort_compare w x y of
        Inl e \<Rightarrow> Inl e
      | Inr v \<Rightarrow>
          if v \<le> 0 then Inr (x # y # ys)
          else (case insert_sorted w x ys of
                  Inl e \<Rightarrow> Inl e
                | Inr zs \<Rightarrow> Inr (y # zs)))"

fun js_sort :: "world \<Rightarrow> jsval list \<Rightarrow> js_error + jsval list" where
  "js_sort w [] = Inr []"
| "js_sort w (x # xs) =
     (case js_sort w xs of
        Inl e \<Rightarrow> Inl e
      | Inr ys \<Rightarrow> insert_sorted w x ys)"

text \<open>
  The callback of \<^verbatim>\<open>map\<close> (lines 112 to 115). \<^verbatim>\<open>toFixed\<close> exists on numbers only:
  a truthy confidence that is not a number makes the call throw.
\<close>

definition normalize_pred :: "jsval \<Rightarrow> js_error + prediction" where
  "normalize_pred pred =
     (case get_prop pred ''class'' of
        Inl e \<Rightarrow> Inl e
      | Inr c \<Rightarrow>
          (case (if truthy c then Inr c
                 else (case get_prop pred ''predicted_class'' of
                         Inl e \<Rightarrow> Inl e
                       | Inr pc \<Rightarrow> Inr (if truthy pc then pc else JStr ''unknown''))) of
             Inl e \<Rightarrow> Inl e
           | Inr b \<Rightarrow>
               (case get_prop pred ''confidence'' of
                  Inl e \<Rightarrow> Inl e
                | Inr cf \<Rightarrow>
                    (case (if truthy cf then cf else JNum 0) of
                       JNum r \<Rightarrow> Inr \<lparr>breed = b, confidence = toFixed2 r\<rparr>
                     | _ \<Rightarrow> Inl (TypeError ''(pred.confidence || 0).toFixed is not a function'')))))"

fun map_throwing :: "('a \<Rightarrow> js_error + 'b) \<Rightarrow> 'a list \<Rightarrow> js_error + 'b list" where
  "map_throwing f [] = Inr []"
| "map_throwing f (x # xs) =
     (case f x of
        Inl e \<Rightarrow> Inl e
      | Inr y \<Rightarrow> (case map_throwing f xs of Inl e \<Rightarrow> Inl e | Inr ys \<Rightarrow> Inr (y # ys)))"

definition default_prediction :: prediction where
  "default_prediction = \<lparr>breed = JStr ''unknown'', confidence = 0\<rparr>"

text \<open>\<^verbatim>\<open>x > 0\<close>: false for \<^verbatim>\<open>NaN\<close>.\<close>

definition greater_zero :: "world \<Rightarrow> jsval \<Rightarrow> js_error + bool" where
  "greater_zero w v =
     (case to_number w v of
        Inl e \<Rightarrow> Inl e
      | Inr None \<Rightarrow> Inr False
      | Inr (Some r) \<Rightarrow> Inr (0 < r))"

text \<open>
  Lines 108 to 123, on the parsed body of the classifier's answer: the pair of
  \<^verbatim>\<open>predictions\<close> and \<^verbatim>\<open>topPrediction\<close>, or the error thrown on the way.
\<close>

definition extract_predictions ::
  "world \<Rightarrow> jsval \<Rightarrow> (js_error + prediction list \<times> prediction) \<times> event list" where
  "extract_predictions w roboflowResult =
     (case get_prop roboflowResult ''predictions'' of
        Inl e \<Rightarrow> (Inl e, [])
      | Inr p \<Rightarrow>
          (case (if truthy p then greater_zero w (js_length p) else Inr False) of
             Inl e \<Rightarrow> (Inl e, [])
           | Inr False \<Rightarrow>
               (Inr ([default_prediction], default_prediction),
                [Console LWarn ''No predictions returned from Roboflow API'' []])
           | Inr True \<Rightarrow>
               (case p of
                  JArr xs \<Rightarrow>
                    (case js_sort w xs of
                       Inl e \<Rightarrow> (Inl e, [])
                     | Inr sortedPredictions \<Rightarrow>
                         (case map_throwing normalize_pred (take 3 sortedPredictions) of
                            Inl e \<Rightarrow> (Inl e, [])
                          | Inr predictions \<Rightarrow>
                              (Inr (predictions,
                                    (case predictions of
                                       [] \<Rightarrow> default_prediction
                                     | first # others \<Rightarrow> first)), [])))
                | _ \<Rightarrow>
                    (Inl (TypeError ''roboflowResult.predictions.sort is not a function''),
                     []))))"

text \<open>The request of line 88. The bearer key of the source is not repeated here.\<close>

definition classifier_request :: "string \<Rightarrow> fetch_request" where
  "classifier_request dataUrl =
     \<lparr>url = ''https://serverless.roboflow.com/innovyom-1s6fe/detect-and-classify'',
      http_method = ''POST'',
      req_headers = [(''Content-Type'', ''application/json''),
                     (''Authorization'', ''Bearer (the key written in line 92)'')],
      req_body = Some (JObj [(''image'', JStr dataUrl), (''use_cache'', JBool True)])\<rparr>"

text \<open>Lines 83 to 105: encoding, the call, the status check and the parsing of the body.\<close>

definition call_classifier :: "world \<Rightarrow> blob \<Rightarrow> (js_error + jsval) \<times> event list" where
  "call_classifier w imageBlob =
     (case encode_base64 w (blob_bytes imageBlob) of
        Inl e \<Rightarrow> (Inl e, [])
      | Inr base64String \<Rightarrow>
          (let dataUrl = ''data:'' @ blob_type imageBlob @ '';base64,'' @ base64String;
               request = classifier_request dataUrl
           in case fetch w request of
                NetworkError m \<Rightarrow> (Inl (TypeError m), [Fetch request])
              | HttpResponse roboflowResponse \<Rightarrow>
                  if \<not> ok roboflowResponse
                  then (Inl (Error (''Roboflow API error: '' @ show_nat (status roboflowResponse)
                                    @ '' '' @ statusText roboflowResponse)),
                        [Fetch request])
                  else (case resp_json roboflowResponse of
                          Inl e \<Rightarrow> (Inl e, [Fetch request])
                        | Inr roboflowResult \<Rightarrow>
                            (Inr roboflowResult,
                             [Fetch request,
                              Console LLog ''Roboflow API response:'' [roboflowResult]]))))"

text \<open>
  The whole \<^verbatim>\<open>try\<close> block with its \<^verbatim>\<open>catch\<close>: an error leaves \<^verbatim>\<open>predictions\<close> and
  \<^verbatim>\<open>topPrediction\<close> at their initial values (lines 79 and 80).
\<close>

definition calling :: event where
  "calling = Console LLog ''Calling Roboflow API for breed classification'' []"

definition inference :: "world \<Rightarrow> blob \<Rightarrow> (prediction list \<times> prediction) \<times> event list" where
  "inference w imageBlob =
     (case call_classifier w imageBlob of
        (Inl e, ev) \<Rightarrow>
          (([default_prediction], default_prediction),
           calling # ev @ [Console LError ''Roboflow API error:'' [JStr (message e)]])
      | (Inr roboflowResult, ev) \<Rightarrow>
          (case extract_predictions w roboflowResult of
             (Inl e, ev') \<Rightarrow>
               (([default_prediction], default_prediction),
                calling # ev @ ev' @ [Console LError ''Roboflow API error:'' [JStr (message e)]])
           | (Inr result, ev') \<Rightarrow> (result, calling # ev @ ev')))"

section \<open>The request handler\<close>

record request =
  req_method :: string
  req_json :: "js_error + jsval"

record success_payload =
  success :: bool
  animal_record_id :: string
  predictions :: "prediction list"
  top_prediction :: prediction
  processing_time_ms :: int

datatype response_body =
    NoBody
  | ErrorBody string "string option"
  | SuccessBody success_payload

record response =
  status_code :: nat
  headers :: "(string \<times> string) list"
  body :: response_body

definition corsHeaders :: "(string \<times> string) list" where
  "corsHeaders =
     [(''Access-Control-Allow-Origin'', ''*''),
      (''Access-Control-Allow-Headers'', ''authorization, x-client-info, apikey, content-type'')]"

definition json_headers :: "(string \<times> string) list" where
  "json_headers = corsHeaders @ [(''Content-Type'', ''application/json'')]"

definition json_response :: "nat \<Rightarrow> response_body \<Rightarrow> response" where
  "json_response code b = \<lparr>status_code = code, headers = json_headers, body = b\<rparr>"

subsection \<open>Request validation (lines 25 to 42)\<close>

record fields =
  image_url :: string
  animal_id :: jsval
  user_id :: jsval
  animal_type :: jsval

text \<open>A stage throws, returns the response of the request, or goes on with a value.\<close>

datatype 'a outcome = Threw js_error | Returned response | Continue 'a

definition missing_fields_message :: string where
  "missing_fields_message =
     ''Missing required fields: image_url, animal_id, user_id, animal_type''"

definition validate :: "request \<Rightarrow> fields outcome \<times> event list" where
  "validate req =
     (case req_json req of
        Inl e \<Rightarrow> (Threw e, [])
      | Inr v \<Rightarrow>
          (case get_prop v ''image_url'' of
             Inl e \<Rightarrow> (Threw e, [])
           | Inr url_v \<Rightarrow>
               (let id_v = property v ''animal_id'';
                    user_v = property v ''user_id'';
                    type_v = property v ''animal_type''
                in if \<not> truthy url_v \<or> \<not> truthy id_v \<or> \<not> truthy user_v \<or> \<not> truthy type_v
                   then (Returned (json_response 400 (ErrorBody missing_fields_message None)), [])
                   else if template_throws id_v \<or> template_throws type_v
                   then (Threw (TypeError ''Cannot convert object to primitive value''), [])
                   else
                     (let ev1 = [Console LLog
                           ''Processing breed classification for animal ${animal_id} of type ${animal_type}''
                           [id_v, type_v]]
                      in if template_throws url_v
                         then (Threw (TypeError ''Cannot convert object to primitive value''), ev1)
                         else
                           (let ev2 = ev1 @ [Console LLog ''Image URL: ${image_url}'' [url_v]]
                            in case url_v of
                                 JStr s \<Rightarrow>
                                   if \<not> prefix ''http'' s
                                   then (Threw (Error ''Invalid image URL provided''), ev2)
                                   else (Continue \<lparr>image_url = s, animal_id = id_v,
                                                    user_id = user_v, animal_type = type_v\<rparr>, ev2)
                               | _ \<Rightarrow>
                                   (Threw (TypeError ''image_url.startsWith is not a function''),
                                    ev2))))))"

subsection \<open>The Image Resolver (lines 45 to 74)\<close>

fun split_on :: "char \<Rightarrow> string \<Rightarrow> string list" where
  "split_on c [] = [[]]"
| "split_on c (x # xs) =
     (if x = c then [] # split_on c xs
      else (case split_on c xs of
              [] \<Rightarrow> [[x]]
            | p # ps \<Rightarrow> (x # p) # ps))"

fun join_with :: "string \<Rightarrow> string list \<Rightarrow> string" where
  "join_with sep [] = []"
| "join_with sep [p] = p"
| "join_with sep (p # q # ps) = p @ sep @ join_with sep (q # ps)"

text \<open>\<^verbatim>\<open>indexOf\<close>: the first position, \<open>-1\<close> when there is none.\<close>

fun index_of :: "string \<Rightarrow> string list \<Rightarrow> int" where
  "index_of x [] = - 1"
| "index_of x (y # ys) =
     (if x = y then 0
      else (let i = index_of x ys in if i < 0 then - 1 else i + 1))"

text \<open>\<^verbatim>\<open>parts[i]\<close> for \<open>i \<ge> 0\<close>: \<^verbatim>\<open>undefined\<close> beyond the end.\<close>

definition element_at :: "string list \<Rightarrow> int \<Rightarrow> jsval" where
  "element_at parts i = (if nat i < length parts then JStr (parts ! nat i) else JUndefined)"

definition path_parts :: "string \<Rightarrow> string list" where
  "path_parts pathname = filter (\<lambda>p. truthy (JStr p)) (split_on CHR ''/'' pathname)"

text \<open>The first \<^verbatim>\<open>try\<close> block (lines 46 to 63): the blob, when storage supplied one.\<close>

definition storage_attempt :: "world \<Rightarrow> string \<Rightarrow> blob option \<times> event list" where
  "storage_attempt w image_url_s =
     (case url_pathname w image_url_s of
        None \<Rightarrow>
          (None,
           [Console LWarn ''Could not parse storage URL, will fallback to HTTP fetch:''
              [JStr ''Invalid URL'']])
      | Some pathname \<Rightarrow>
          (let parts = path_parts pathname;
               idxPublic = index_of ''public'' parts
           in if 0 \<le> idxPublic \<and> truthy (element_at parts (idxPublic + 1))
              then
                (let bucketId = parts ! nat (idxPublic + 1);
                     objectPath = join_with ''/'' (drop (nat (idxPublic + 2)) parts);
                     ev = [Console LLog
                             ''Attempting storage download from bucket ${bucketId} path ${objectPath}''
                             [JStr bucketId, JStr objectPath],
                           StorageDownload bucketId objectPath]
                 in case storage_download w bucketId objectPath of
                      Inl m \<Rightarrow>
                        (None,
                         ev @ [Console LWarn
                                 ''Storage download failed, will fallback to HTTP fetch:''
                                 [JStr m]])
                    | Inr data \<Rightarrow> (Some data, ev))
              else (None, [])))"

definition image_request :: "string \<Rightarrow> fetch_request" where
  "image_request image_url_s =
     \<lparr>url = image_url_s, http_method = ''GET'',
      req_headers = [(''Cache-Control'', ''no-cache'')], req_body = None\<rparr>"

definition image_obtained :: "blob \<Rightarrow> event" where
  "image_obtained b =
     Console LLog ''Image obtained successfully, size: ${imageBlob.size} bytes, type: ${imageBlob.type}''
       [JNum (of_nat (length (blob_bytes b))), JStr (blob_type b)]"

definition resolve_image :: "world \<Rightarrow> string \<Rightarrow> (js_error + blob) \<times> event list" where
  "resolve_image w image_url_s =
     (case storage_attempt w image_url_s of
        (Some imageBlob, ev) \<Rightarrow> (Inr imageBlob, ev @ [image_obtained imageBlob])
      | (None, ev) \<Rightarrow>
          (let ev' = ev @ [Console LLog ''Fetching image via HTTP...'' [],
                           Fetch (image_request image_url_s)]
           in case fetch w (image_request image_url_s) of
                NetworkError m \<Rightarrow> (Inl (TypeError m), ev')
              | HttpResponse imageResponse \<Rightarrow>
                  if \<not> ok imageResponse
                  then (Inl (Error (''Failed to fetch image: '' @ show_nat (status imageResponse)
                                    @ '' '' @ statusText imageResponse)), ev')
                  else (case resp_blob imageResponse of
                          Inl e \<Rightarrow> (Inl e, ev')
                        | Inr imageBlob \<Rightarrow> (Inr imageBlob, ev' @ [image_obtained imageBlob]))))"

subsection \<open>Persistence and response (lines 130 to 186)\<close>

definition upsert_call_of :: "fields \<Rightarrow> prediction \<Rightarrow> upsert_call" where
  "upsert_call_of f topPrediction =
     \<lparr>upsert_table = ''animal_records'',
      upsert_row =
        \<lparr>row_user_id = user_id f,
         row_animal_id = animal_id f,
         row_animal_type = animal_type f,
         predicted_breed = breed topPrediction,
         confidence_score = confidence topPrediction,
         row_image_url = image_url f,
         verification_status = ''pending''\<rparr>,
      on_conflict = ''animal_id,user_id''\<rparr>"

definition insert_call_of :: "fields \<Rightarrow> string \<Rightarrow> prediction list \<Rightarrow> int \<Rightarrow> insert_call" where
  "insert_call_of f record_id preds processingTime =
     \<lparr>insert_table = ''breed_predictions'',
      insert_row =
        \<lparr>log_animal_record_id = record_id,
         log_image_url = image_url f,
         predicted_breeds = preds,
         model_version = ''resnet-50-v1.0'',
         log_processing_time_ms = processingTime\<rparr>\<rparr>"

definition success_response :: "string \<Rightarrow> prediction list \<Rightarrow> prediction \<Rightarrow> int \<Rightarrow> response" where
  "success_response record_id preds topPrediction processingTime =
     \<lparr>status_code = 200, headers = json_headers,
      body = SuccessBody
        \<lparr>success = True,
         animal_record_id = record_id,
         predictions = preds,
         top_prediction =
           \<lparr>breed = breed topPrediction, confidence = confidence topPrediction\<rparr>,
         processing_time_ms = processingTime\<rparr>\<rparr>"

definition persist ::
  "world \<Rightarrow> fields \<Rightarrow> prediction list \<Rightarrow> prediction \<Rightarrow> response \<times> event list" where
  "persist w f preds topPrediction =
     (let processingTime = now_end w - now_start w;
          u = upsert_call_of f topPrediction
      in case upsert w u of
           Inl m \<Rightarrow>
             (json_response 500 (ErrorBody ''Failed to create animal record'' (Some m)),
              [Upsert u, Console LError ''Error creating animal record:'' [JStr m]])
         | Inr record_id \<Rightarrow>
             (let i = insert_call_of f record_id preds processingTime
              in (success_response record_id preds topPrediction processingTime,
                  [Upsert u, Insert i]
                  @ (case insert_log w i of
                       Some m \<Rightarrow> [Console LError ''Error logging prediction:'' [JStr m]]
                     | None \<Rightarrow> [])
                  @ [Console LLog
                       ''Classification completed in ${processingTime}ms for animal ${animal_id}''
                       [JNum (of_int processingTime), animal_id f]])))"

subsection \<open>The handler (lines 18 to 196)\<close>

text \<open>The body of the outer \<^verbatim>\<open>try\<close>: the error it throws, or the response it returns.\<close>

definition try_body :: "world \<Rightarrow> request \<Rightarrow> (js_error + response) \<times> event list" where
  "try_body w req =
     (case validate req of
        (Threw e, ev) \<Rightarrow> (Inl e, ev)
      | (Returned r, ev) \<Rightarrow> (Inr r, ev)
      | (Continue f, ev1) \<Rightarrow>
          (case resolve_image w (image_url f) of
             (Inl e, ev2) \<Rightarrow> (Inl e, ev1 @ ev2)
           | (Inr imageBlob, ev2) \<Rightarrow>
               (case inference w imageBlob of
                  ((preds, topPrediction), ev3) \<Rightarrow>
                    (case persist w f preds topPrediction of
                       (r, ev4) \<Rightarrow> (Inr r, ev1 @ ev2 @ ev3 @ ev4)))))"

definition handler :: "world \<Rightarrow> request \<Rightarrow> response \<times> event list" where
  "handler w req =
     (if req_method req = ''OPTIONS''
      then (\<lparr>status_code = 200, headers = corsHeaders, body = NoBody\<rparr>, [])
      else (case try_body w req of
              (Inr r, ev) \<Rightarrow> (r, ev)
            | (Inl e, ev) \<Rightarrow>
                (json_response 500 (ErrorBody ''Internal server error'' (Some (message e))),
                 ev @ [Console LError ''Error in classify-breed function:'' [JStr (message e)]])))"

text \<open>The calls to the collaborators in a trace: everything but console output.\<close>

fun is_effect :: "event \<Rightarrow> bool" where
  "is_effect (Console l t vs) = False"
| "is_effect e = True"

section \<open>The specification's vocabulary\<close>

text \<open>
  The definitions of this section follow the words of the specification, not the code;
  the theorems compare the two.
\<close>

text \<open>
  The original confidence of an entry of the classifier's list, \<open>0\<close> when the field is
  absent (or not a number).
\<close>

definition conf :: "jsval \<Rightarrow> real" where
  "conf x = (case property x ''confidence'' of JNum r \<Rightarrow> r | _ \<Rightarrow> 0)"

text \<open>An entry that is an object whose confidence field is a number.\<close>

definition numeric_entry :: "jsval \<Rightarrow> bool" where
  "numeric_entry x =
     (case x of
        JObj kvs \<Rightarrow> (case map_of kvs ''confidence'' of Some (JNum r) \<Rightarrow> True | _ \<Rightarrow> False)
      | _ \<Rightarrow> False)"

text \<open>An entry that is an object whose confidence field is a number, null or absent.\<close>

definition plain_entry :: "jsval \<Rightarrow> bool" where
  "plain_entry x =
     (case x of
        JObj kvs \<Rightarrow>
          (case map_of kvs ''confidence'' of
             None \<Rightarrow> True
           | Some JNull \<Rightarrow> True
           | Some (JNum r) \<Rightarrow> True
           | _ \<Rightarrow> False)
      | _ \<Rightarrow> False)"

text \<open>
  The breed: the \<^verbatim>\<open>class\<close> field, else the \<^verbatim>\<open>predicted_class\<close> field, else the literal
  \<^verbatim>\<open>"unknown"\<close>, where a field counts when it is present and not empty (truthy).
\<close>

definition breed_of :: "jsval \<Rightarrow> jsval" where
  "breed_of x =
     (if truthy (property x ''class'') then property x ''class''
      else if truthy (property x ''predicted_class'') then property x ''predicted_class''
      else JStr ''unknown'')"

text \<open>
  \<open>y\<close> is \<open>x\<close> rounded to 2 decimal places: a multiple of \<open>1/100\<close> at distance at most
  \<open>1/200\<close>.
\<close>

definition rounded_2dp :: "real \<Rightarrow> real \<Rightarrow> bool" where
  "rounded_2dp x y = (of_int \<lfloor>y * 100\<rfloor> = y * 100 \<and> \<bar>y - x\<bar> \<le> 1 / 200)"

text \<open>Sorted by confidence, descending (ties in their original order), the first 3.\<close>

definition ranked :: "jsval list \<Rightarrow> jsval list" where
  "ranked xs = take 3 (sort_key (\<lambda>x. - conf x) xs)"





text \<open>The numeric confidence fields of the classifier's answer.\<close>

definition response_confidences :: "world \<Rightarrow> blob \<Rightarrow> real list" where
  "response_confidences w b =
     (case fst (call_classifier w b) of
        Inl e \<Rightarrow> []
      | Inr v \<Rightarrow>
          (case property v ''predictions'' of
             JArr xs \<Rightarrow>
               concat (map (\<lambda>x. case property x ''confidence'' of JNum r \<Rightarrow> [r] | _ \<Rightarrow> []) xs)
           | _ \<Rightarrow> []))"


text \<open>A required field that is absent or empty: its value is not truthy.\<close>

definition required_fields :: "string list" where
  "required_fields = [''image_url'', ''animal_id'', ''user_id'', ''animal_type'']"

definition missing :: "jsval \<Rightarrow> string \<Rightarrow> bool" where
  "missing v k = (\<not> truthy (property v k))"

text \<open>The datastore calls of a trace, and its fetches.\<close>

fun is_datastore :: "event \<Rightarrow> bool" where
  "is_datastore (Upsert u) = True"
| "is_datastore (Insert i) = True"
| "is_datastore e = False"


section \<open>Concrete requests and worlds\<close>

text \<open>
  The end-to-end example of the specification: the image lies in the bucket
  \<^verbatim>\<open>animal-images\<close>, the classifier answers with a Beagle at 0.201 and a Labrador at
  0.872, and every collaborator works.
\<close>

definition labrador :: jsval where
  "labrador = JObj [(''class'', JStr ''Labrador''), (''confidence'', JNum 0.872)]"

definition beagle :: jsval where
  "beagle = JObj [(''class'', JStr ''Beagle''), (''confidence'', JNum 0.201)]"

definition example_result :: jsval where
  "example_result = JObj [(''predictions'', JArr [beagle, labrador])]"

definition example_blob :: blob where
  "example_blob = \<lparr>blob_bytes = [255, 216, 255], blob_type = ''image/jpeg''\<rparr>"

definition example_url :: string where
  "example_url = ''https://host/storage/v1/object/public/animal-images/abc.jpg''"

definition answer :: "jsval \<Rightarrow> fetch_request \<Rightarrow> fetch_result" where
  "answer v r =
     HttpResponse \<lparr>status = 200, statusText = ''OK'',
                   resp_blob = Inr example_blob, resp_json = Inr v\<rparr>"

definition example_world :: world where
  "example_world =
     \<lparr>url_pathname =
        (\<lambda>u. if u = example_url
             then Some ''/storage/v1/object/public/animal-images/abc.jpg'' else None),
      storage_download = (\<lambda>bucket path. Inr example_blob),
      fetch = answer example_result,
      encode_base64 = (\<lambda>bytes. Inr ''/9j/''),
      coerce_number =
        (\<lambda>v. if v = JStr ''0.92'' then Inr (Some 0.92)
             else if v = JStr ''0.05'' then Inr (Some 0.05)
             else Inr None),
      upsert = (\<lambda>u. Inr ''rec-1''),
      insert_log = (\<lambda>i. None),
      now_start = 1000,
      now_end = 1250\<rparr>"

definition example_request :: request where
  "example_request =
     \<lparr>req_method = ''POST'',
      req_json = Inr (JObj [(''image_url'', JStr example_url),
                            (''animal_id'', JStr ''A1''),
                            (''user_id'', JStr ''U1''),
                            (''animal_type'', JStr ''dog'')])\<rparr>"

definition example_fields :: fields where
  "example_fields =
     \<lparr>image_url = example_url, animal_id = JStr ''A1'', user_id = JStr ''U1'',
      animal_type = JStr ''dog''\<rparr>"





definition datastore_down :: world where
  "datastore_down =
     example_world\<lparr>upsert := \<lambda>u. Inl ''permission denied for table animal_records''\<rparr>"


definition log_down :: world where
  "log_down =
     example_world\<lparr>insert_log := \<lambda>i. Some ''permission denied for table breed_predictions''\<rparr>"

text \<open>
  An answer whose confidences are strings, one with a confidence above 1, and one whose
  first entry has no confidence.
\<close>

definition unranked_result :: jsval where
  "unranked_result =
     JObj [(''predictions'',
            JArr [JObj [(''class'', JStr ''Gir'')],
                  JObj [(''class'', JStr ''Sahiwal''), (''confidence'', JNum 0.9)]])]"


definition quoted_result :: jsval where
  "quoted_result =
     JObj [(''predictions'',
            JArr [JObj [(''class'', JStr ''Gir''), (''confidence'', JStr ''0.92'')],
                  JObj [(''class'', JStr ''Sahiwal''), (''confidence'', JStr ''0.05'')]])]"

definition overconfident_result :: jsval where
  "overconfident_result =
     JObj [(''predictions'', JArr [JObj [(''class'', JStr ''Gir''), (''confidence'', JNum 1.5)]])]"

section \<open>Sorting and normalising the classifier's predictions\<close>

text \<open>
  On entries whose confidence is a number the comparator is a total preorder, and the
  sort of the model is the stable sort by descending confidence.
\<close>

lemma sort_compare_numeric:
  "numeric_entry x \<Longrightarrow> numeric_entry y \<Longrightarrow> sort_compare w x y = Inr (conf y - conf x)"
  by (auto simp: numeric_entry_def sort_compare_def conf_def split: jsval.splits option.splits)

lemma insert_sorted_numeric:
  "numeric_entry x \<Longrightarrow> \<forall>y\<in>set ys. numeric_entry y \<Longrightarrow>
   insert_sorted w x ys = Inr (insort_key (\<lambda>x. - conf x) x ys)"
  by (induction ys) (auto simp: sort_compare_numeric)

lemma js_sort_numeric:
  "\<forall>x\<in>set xs. numeric_entry x \<Longrightarrow> js_sort w xs = Inr (sort_key (\<lambda>x. - conf x) xs)"
  by (induction xs) (auto simp: insert_sorted_numeric)

text \<open>Whatever the comparator answers, a sort that returns has permuted its input.\<close>

lemma insert_sorted_mset:
  "insert_sorted w x ys = Inr zs \<Longrightarrow> mset zs = add_mset x (mset ys)"
  by (induction ys arbitrary: zs) (auto split: sum.splits if_splits)

lemma js_sort_mset: "js_sort w xs = Inr ys \<Longrightarrow> mset ys = mset xs"
  by (induction xs arbitrary: ys) (auto split: sum.splits dest: insert_sorted_mset)

text \<open>On plain entries neither the comparator nor the callback of \<^verbatim>\<open>map\<close> throws.\<close>

lemma plain_confidence:
  "plain_entry x \<Longrightarrow> \<exists>c n. get_prop x ''confidence'' = Inr c \<and> to_number w c = Inr n"
  by (cases x) (auto simp: plain_entry_def split: option.splits jsval.splits)

lemma sort_compare_plain:
  assumes "plain_entry x" and "plain_entry y"
  shows "\<exists>v. sort_compare w x y = Inr v"
proof -
  obtain cx nx where x: "get_prop x ''confidence'' = Inr cx" "to_number w cx = Inr nx"
    using plain_confidence [OF assms(1)] by blast
  obtain cy ny where y: "get_prop y ''confidence'' = Inr cy" "to_number w cy = Inr ny"
    using plain_confidence [OF assms(2)] by blast
  show ?thesis
    by (cases nx; cases ny) (simp_all add: sort_compare_def x y)
qed

lemma insert_sorted_plain:
  "plain_entry x \<Longrightarrow> \<forall>y\<in>set ys. plain_entry y \<Longrightarrow> \<exists>zs. insert_sorted w x ys = Inr zs"
proof (induction ys)
  case Nil
  then show ?case by simp
next
  case (Cons y ys)
  then obtain v where v: "sort_compare w x y = Inr v"
    using sort_compare_plain [of x y w] by auto
  from Cons obtain zs where "insert_sorted w x ys = Inr zs" by auto
  with v show ?case by simp
qed

lemma js_sort_plain:
  "\<forall>x\<in>set xs. plain_entry x \<Longrightarrow> \<exists>ys. js_sort w xs = Inr ys"
proof (induction xs)
  case Nil
  then show ?case by simp
next
  case (Cons x xs)
  then obtain ys where ys: "js_sort w xs = Inr ys" by auto
  then have "set ys = set xs" using js_sort_mset by (metis set_mset_mset)
  with Cons.prems have "\<forall>y\<in>set ys. plain_entry y" by simp
  with Cons.prems obtain zs where "insert_sorted w x ys = Inr zs"
    using insert_sorted_plain [of x ys w] by auto
  with ys show ?case by simp
qed

lemma numeric_plain: "numeric_entry x \<Longrightarrow> plain_entry x"
  by (auto simp: numeric_entry_def plain_entry_def split: jsval.splits option.splits)

lemma toFixed2_zero: "toFixed2 0 = 0"
  by (simp add: toFixed2_def)

lemma normalize_pred_plain:
  "plain_entry x \<Longrightarrow>
   normalize_pred x = Inr \<lparr>breed = breed_of x, confidence = toFixed2 (conf x)\<rparr>"
  by (auto simp: plain_entry_def normalize_pred_def breed_of_def conf_def toFixed2_zero
      split: jsval.splits option.splits)

lemma map_throwing_total:
  "\<forall>x\<in>set xs. f x = Inr (g x) \<Longrightarrow> map_throwing f xs = Inr (map g xs)"
  by (induction xs) auto

lemma map_throwing_all2:
  "map_throwing f xs = Inr ys \<Longrightarrow> list_all2 (\<lambda>x y. f x = Inr y) xs ys"
  by (induction xs arbitrary: ys) (auto split: sum.splits)

lemma list_all2_right:
  "list_all2 P xs ys \<Longrightarrow> y \<in> set ys \<Longrightarrow> \<exists>x\<in>set xs. P x y"
  by (induction rule: list_all2_induct) auto

text \<open>Rounding: \<^verbatim>\<open>toFixed(2)\<close> rounds to 2 decimal places and keeps the unit interval.\<close>

lemma toFixed2_rounded: "\<bar>x\<bar> < 10 ^ 21 \<Longrightarrow> rounded_2dp x (toFixed2 x)"
  unfolding rounded_2dp_def toFixed2_def
  by (auto simp: abs_if) linarith+

lemma toFixed2_unit: "0 \<le> x \<Longrightarrow> x \<le> 1 \<Longrightarrow> 0 \<le> toFixed2 x \<and> toFixed2 x \<le> 1"
  unfolding toFixed2_def
  by (auto simp: abs_if)

lemma toFixed2_facts:
  "(\<bar>r\<bar> < 10 ^ 21 \<longrightarrow> rounded_2dp r (toFixed2 r))
   \<and> (0 \<le> r \<and> r \<le> 1 \<longrightarrow> 0 \<le> toFixed2 r \<and> toFixed2 r \<le> 1)"
  using toFixed2_rounded [of r] toFixed2_unit [of r] by blast

text \<open>The ranked list of the specification is sorted and holds the highest confidences.\<close>

lemma ranked_sorted: "sorted_wrt (\<lambda>a b. conf b \<le> conf a) (ranked xs)"
proof -
  have "sorted (map (\<lambda>x. - conf x) (sort_key (\<lambda>x. - conf x) xs))"
    by (rule sorted_sort_key)
  then have "sorted (map (\<lambda>x. - conf x) (take 3 (sort_key (\<lambda>x. - conf x) xs)))"
    by (simp add: take_map [symmetric])
  then show ?thesis
    by (simp add: ranked_def sorted_wrt_map)
qed

lemma ranked_top:
  assumes "x \<in># mset xs - mset (ranked xs)" and "y \<in> set (ranked xs)"
  shows "conf x \<le> conf y"
proof -
  let ?s = "sort_key (\<lambda>x. - conf x) xs"
  have s: "sorted (map (\<lambda>x. - conf x) (take 3 ?s @ drop 3 ?s))"
    by simp
  have "mset xs = mset (take 3 ?s) + mset (drop 3 ?s)"
    by (metis append_take_drop_id mset_append mset_sort)
  then have "mset xs - mset (ranked xs) = mset (drop 3 ?s)"
    by (simp add: ranked_def)
  with assms(1) have x: "x \<in> set (drop 3 ?s)" by simp
  from assms(2) have y: "y \<in> set (take 3 ?s)" by (simp add: ranked_def)
  from s x y have "- conf y \<le> - conf x"
    unfolding map_append sorted_append by auto
  then show ?thesis by simp
qed

section \<open>The shape of what the Inference Client returns\<close>

lemma extract_plain:
  assumes "property result ''predictions'' = JArr xs" and "xs \<noteq> []"
    and "\<forall>x\<in>set xs. plain_entry x"
  shows "\<exists>ys. js_sort w xs = Inr ys \<and>
           extract_predictions w result =
             (Inr (map (\<lambda>y. \<lparr>breed = breed_of y, confidence = toFixed2 (conf y)\<rparr>) (take 3 ys),
                   hd (map (\<lambda>y. \<lparr>breed = breed_of y, confidence = toFixed2 (conf y)\<rparr>) (take 3 ys))),
              [])"
proof -
  let ?g = "\<lambda>y. \<lparr>breed = breed_of y, confidence = toFixed2 (conf y)\<rparr>"
  from assms(1) have p: "get_prop result ''predictions'' = Inr (JArr xs)"
    by (cases result) auto
  from assms(2) have g: "greater_zero w (JNum (real (length xs))) = Inr True"
    by (simp add: greater_zero_def)
  obtain ys where ys: "js_sort w xs = Inr ys"
    using js_sort_plain [OF assms(3)] by blast
  then have m: "mset ys = mset xs" by (rule js_sort_mset)
  then have set: "set ys = set xs" by (metis set_mset_mset)
  from m assms(2) have ne: "ys \<noteq> []" by auto
  have "\<forall>y\<in>set (take 3 ys). normalize_pred y = Inr (?g y)"
    using set assms(3) by (auto dest: in_set_takeD simp: normalize_pred_plain)
  then have m: "map_throwing normalize_pred (take 3 ys) = Inr (map ?g (take 3 ys))"
    by (rule map_throwing_total)
  from ne have t: "take 3 ys \<noteq> []" by simp
  have "extract_predictions w result = (Inr (map ?g (take 3 ys), hd (map ?g (take 3 ys))), [])"
    using t by (simp add: extract_predictions_def p g ys m split: list.splits)
  with ys show ?thesis by blast
qed

lemma extract_shape:
  assumes "extract_predictions w v = (Inr (preds, tp), ev)"
  shows "(preds = [default_prediction] \<and> tp = default_prediction)
       \<or> (\<exists>xs ys. property v ''predictions'' = JArr xs \<and> xs \<noteq> [] \<and> js_sort w xs = Inr ys
            \<and> list_all2 (\<lambda>x y. normalize_pred x = Inr y) (take 3 ys) preds
            \<and> preds \<noteq> [] \<and> tp = hd preds)"
proof -
  obtain p where p: "get_prop v ''predictions'' = Inr p"
    using assms by (auto simp: extract_predictions_def split: sum.splits)
  then have pv: "p = property v ''predictions''" by (cases v) auto
  consider (none) "(if truthy p then greater_zero w (js_length p) else Inr False) = Inr False"
    | (some) "(if truthy p then greater_zero w (js_length p) else Inr False) = Inr True"
    using assms p by (auto simp: extract_predictions_def split: sum.splits bool.splits)
  then show ?thesis
  proof cases
    case none
    with assms p show ?thesis by (simp add: extract_predictions_def)
  next
    case some
    with assms p obtain xs where xs: "p = JArr xs"
      by (cases p) (auto simp: extract_predictions_def)
    with some have g: "greater_zero w (JNum (real (length xs))) = Inr True" by simp
    then have ne: "xs \<noteq> []" by (auto simp: greater_zero_def)
    from assms p some xs obtain ys where ys: "js_sort w xs = Inr ys"
      by (auto simp: extract_predictions_def split: sum.splits)
    with assms p some xs have m: "map_throwing normalize_pred (take 3 ys) = Inr preds"
      and t: "tp = (case preds of [] \<Rightarrow> default_prediction | first # others \<Rightarrow> first)"
      by (auto simp: extract_predictions_def split: sum.splits)
    from m have a: "list_all2 (\<lambda>x y. normalize_pred x = Inr y) (take 3 ys) preds"
      by (rule map_throwing_all2)
    from ys have "length ys = length xs" using js_sort_mset by (metis size_mset)
    with ne have "take 3 ys \<noteq> []" by auto
    with a have pne: "preds \<noteq> []" by auto
    with t have "tp = hd preds" by (cases preds) auto
    with pv xs ne ys a pne show ?thesis by blast
  qed
qed

lemma inference_shape:
  assumes "inference w b = ((preds, tp), ev)"
  shows "(preds = [default_prediction] \<and> tp = default_prediction)
       \<or> (\<exists>v ev1 ev2. call_classifier w b = (Inr v, ev1)
            \<and> extract_predictions w v = (Inr (preds, tp), ev2))"
  using assms by (auto simp: inference_def split: prod.splits sum.splits)


lemma inference_extracted:
  assumes "call_classifier w b = (Inr v, ev1)" and "extract_predictions w v = (Inr r, ev2)"
  shows "fst (inference w b) = r"
  using assms by (simp add: inference_def)

lemma normalize_pred_confidence:
  assumes "normalize_pred x = Inr p"
  shows "confidence p = toFixed2 0
       \<or> (\<exists>r. property x ''confidence'' = JNum r \<and> confidence p = toFixed2 r)"
proof -
  from assms obtain cf where c: "get_prop x ''confidence'' = Inr cf"
    by (auto simp: normalize_pred_def split: sum.splits if_splits)
  then have cf: "cf = property x ''confidence''" by (cases x) auto
  from assms c obtain r where r: "(if truthy cf then cf else JNum 0) = JNum r"
    and p: "confidence p = toFixed2 r"
    by (auto simp: normalize_pred_def split: sum.splits if_splits jsval.splits)
  show ?thesis
  proof (cases "truthy cf")
    case True
    with r cf p show ?thesis by simp
  next
    case False
    with r p show ?thesis by simp
  qed
qed

text \<open>Evaluation of the stages on the end-to-end example.\<close>

lemmas example_defs =
  example_world_def example_request_def example_fields_def example_blob_def example_url_def
  example_result_def labrador_def beagle_def answer_def

lemmas stage_defs =
  validate_def resolve_image_def storage_attempt_def path_parts_def element_at_def
  image_obtained_def image_request_def inference_def call_classifier_def classifier_request_def
  extract_predictions_def greater_zero_def sort_compare_def normalize_pred_def toFixed2_def
  ok_def default_prediction_def Let_def

lemma call_example:
  "fetch w = fetch example_world \<Longrightarrow> encode_base64 w = encode_base64 example_world \<Longrightarrow>
   fst (call_classifier w example_blob) = Inr example_result"
  by (simp add: call_classifier_def example_world_def answer_def ok_def Let_def)

lemma inference_example:
  "fetch w = fetch example_world \<Longrightarrow> encode_base64 w = encode_base64 example_world \<Longrightarrow>
   fst (inference w example_blob) =
     ([\<lparr>breed = JStr ''Labrador'', confidence = 87 / 100\<rparr>,
       \<lparr>breed = JStr ''Beagle'', confidence = 1 / 5\<rparr>],
      \<lparr>breed = JStr ''Labrador'', confidence = 87 / 100\<rparr>)"
  by (simp add: example_defs stage_defs)

section \<open>Claims about the Inference Client\<close>

text \<open>
  C1, as the code has it. For every answer of the classifier whose predictions list has
  \<open>N \<ge> 1\<close> entries, each an object whose confidence field is a number, null or absent,
  the Inference Client returns a list of exactly \<open>min N 3\<close> predictions, each made from
  an entry of the answer: its breed is the entry's \<^verbatim>\<open>class\<close> field, else its
  \<^verbatim>\<open>predicted_class\<close> field, else \<^verbatim>\<open>"unknown"\<close>, and its confidence is the entry's
  confidence (0 when absent) rounded to 2 decimal places; the top prediction is the first
  element of the list. When every confidence field is a number, the entries used are the
  \<open>min N 3\<close> entries of highest confidence, in descending order of confidence.
\<close>

theorem ranked_predictions:
  assumes "call_classifier w b = (Inr result, ev)"
    and "property result ''predictions'' = JArr xs" and "xs \<noteq> []"
    and "\<forall>x\<in>set xs. plain_entry x"
  shows "\<exists>ys preds.
           fst (inference w b) = (preds, hd preds)
         \<and> preds = map (\<lambda>y. \<lparr>breed = breed_of y, confidence = toFixed2 (conf y)\<rparr>) ys
         \<and> length preds = min (length xs) 3
         \<and> mset ys \<subseteq># mset xs
         \<and> (\<forall>y\<in>set ys. \<bar>conf y\<bar> < 10 ^ 21 \<longrightarrow> rounded_2dp (conf y) (toFixed2 (conf y)))
         \<and> ((\<forall>x\<in>set xs. numeric_entry x) \<longrightarrow>
              ys = ranked xs
            \<and> sorted_wrt (\<lambda>a b. conf b \<le> conf a) ys
            \<and> (\<forall>x\<in>#mset xs - mset ys. \<forall>y\<in>set ys. conf x \<le> conf y))"
proof -
  let ?g = "\<lambda>y. \<lparr>breed = breed_of y, confidence = toFixed2 (conf y)\<rparr>"
  obtain ys where ys: "js_sort w xs = Inr ys"
    and ex: "extract_predictions w result =
      (Inr (map ?g (take 3 ys), hd (map ?g (take 3 ys))), [])"
    using extract_plain [OF assms(2-4)] by blast
  have inf: "fst (inference w b) = (map ?g (take 3 ys), hd (map ?g (take 3 ys)))"
    by (rule inference_extracted [OF assms(1) ex])
  have m: "mset ys = mset xs" using ys by (rule js_sort_mset)
  then have len: "length ys = length xs" by (metis size_mset)
  have sub: "mset (take 3 ys) \<subseteq># mset xs"
    using m by (metis append_take_drop_id mset_append mset_subset_eq_add_left)
  have num: "ys = sort_key (\<lambda>x. - conf x) xs" if "\<forall>x\<in>set xs. numeric_entry x"
    using js_sort_numeric [OF that, of w] ys by simp
  show ?thesis
    apply (rule exI [of _ "take 3 ys"])
    apply (rule exI [of _ "map ?g (take 3 ys)"])
    using inf len sub num
    by (auto simp: toFixed2_rounded ranked_sorted ranked_def [symmetric] dest: ranked_top)
qed

text \<open>
  On the example the answer lists the Beagle first; the Labrador comes out on top, with
  0.872 rounded to 0.87.
\<close>

theorem ranked_predictions_witness:
  "fst (call_classifier example_world example_blob) = Inr example_result
   \<and> property example_result ''predictions'' = JArr [beagle, labrador]
   \<and> plain_entry beagle \<and> plain_entry labrador
   \<and> numeric_entry beagle \<and> numeric_entry labrador
   \<and> ranked [beagle, labrador] = [labrador, beagle]
   \<and> fst (inference example_world example_blob) =
       ([\<lparr>breed = JStr ''Labrador'', confidence = 87 / 100\<rparr>,
         \<lparr>breed = JStr ''Beagle'', confidence = 1 / 5\<rparr>],
        \<lparr>breed = JStr ''Labrador'', confidence = 87 / 100\<rparr>)"
proof -
  have c0: "fst (call_classifier example_world example_blob) = Inr example_result"
    by (simp add: call_example)
  then have c: "call_classifier example_world example_blob =
      (Inr example_result, snd (call_classifier example_world example_blob))"
    by (simp add: prod_eq_iff)
  have p: "property example_result ''predictions'' = JArr [beagle, labrador]"
    by (simp add: example_result_def)
  have e: "\<forall>x\<in>set [beagle, labrador]. plain_entry x"
    by (simp add: beagle_def labrador_def plain_entry_def)
  have n: "\<forall>x\<in>set [beagle, labrador]. numeric_entry x"
    by (simp add: beagle_def labrador_def numeric_entry_def)
  have r: "ranked [beagle, labrador] = [labrador, beagle]"
    by (simp add: ranked_def conf_def beagle_def labrador_def)
  from ranked_predictions [OF c p _ e] n r c0 p e show ?thesis
    by (auto simp: conf_def breed_of_def toFixed2_def beagle_def labrador_def)
qed

text \<open>
  C1 fails as stated: an answer with \<open>N = 2\<close> predictions whose confidences are the
  strings \<^verbatim>\<open>"0.92"\<close> and \<^verbatim>\<open>"0.05"\<close> makes \<^verbatim>\<open>toFixed\<close> throw inside the \<^verbatim>\<open>try\<close>
  block, and the list returned is the default list of one element.
\<close>

theorem quoted_confidences_degrade:
  "fst (call_classifier (example_world\<lparr>fetch := answer quoted_result\<rparr>) example_blob) =
     Inr quoted_result
   \<and> property quoted_result ''predictions'' =
       JArr [JObj [(''class'', JStr ''Gir''), (''confidence'', JStr ''0.92'')],
             JObj [(''class'', JStr ''Sahiwal''), (''confidence'', JStr ''0.05'')]]
   \<and> fst (inference (example_world\<lparr>fetch := answer quoted_result\<rparr>) example_blob) =
       ([\<lparr>breed = JStr ''unknown'', confidence = 0\<rparr>], \<lparr>breed = JStr ''unknown'', confidence = 0\<rparr>)
   \<and> length (fst (fst (inference (example_world\<lparr>fetch := answer quoted_result\<rparr>) example_blob)))
       \<noteq> min 2 3"
  by (simp add: inference_def call_classifier_def example_world_def answer_def ok_def
      example_blob_def quoted_result_def extract_predictions_def greater_zero_def
      normalize_pred_def sort_compare_def default_prediction_def Let_def)

text \<open>
  The order is that of the confidences only where every entry has one: the comparator
  subtracts the fields as they are, an absent field gives \<^verbatim>\<open>NaN\<close>, and the sort takes
  \<^verbatim>\<open>NaN\<close> for \<open>0\<close>. An entry without a confidence stays where it is.
\<close>

lemma absent_confidence_not_ranked:
  "fst (inference (example_world\<lparr>fetch := answer unranked_result\<rparr>) example_blob) =
     ([\<lparr>breed = JStr ''Gir'', confidence = 0\<rparr>, \<lparr>breed = JStr ''Sahiwal'', confidence = 9 / 10\<rparr>],
      \<lparr>breed = JStr ''Gir'', confidence = 0\<rparr>)"
  by (simp add: inference_def call_classifier_def example_world_def answer_def ok_def
      example_blob_def unranked_result_def extract_predictions_def greater_zero_def
      normalize_pred_def sort_compare_def toFixed2_def Let_def)

text \<open>
  C9, as the code has it. Every prediction produced by the Inference Client has a
  confidence that is the rounding of a number \<open>r\<close>, where \<open>r\<close> is \<open>0\<close> or a numeric
  confidence field of the classifier's answer: it is \<open>r\<close> rounded to 2 decimal places, and
  it lies in \<open>[0, 1]\<close> whenever \<open>r\<close> does. Nothing clamps a confidence outside \<open>[0, 1]\<close>.
\<close>

theorem confidence_rounded:
  assumes "p \<in> set (fst (fst (inference w b)))"
  shows "\<exists>r\<in>set (0 # response_confidences w b).
           confidence p = toFixed2 r
         \<and> (\<bar>r\<bar> < 10 ^ 21 \<longrightarrow> rounded_2dp r (confidence p))
         \<and> (0 \<le> r \<and> r \<le> 1 \<longrightarrow> 0 \<le> confidence p \<and> confidence p \<le> 1)"
proof -
  obtain preds tp ev where i: "inference w b = ((preds, tp), ev)"
    by (metis surj_pair)
  with assms have p: "p \<in> set preds" by simp
  have "\<exists>r\<in>set (0 # response_confidences w b). confidence p = toFixed2 r"
  proof -
    consider (default) "preds = [default_prediction]"
      | (found) v ev1 xs ys where "call_classifier w b = (Inr v, ev1)"
          "property v ''predictions'' = JArr xs" "js_sort w xs = Inr ys"
          "list_all2 (\<lambda>x y. normalize_pred x = Inr y) (take 3 ys) preds"
      using inference_shape [OF i] extract_shape by blast
    then show ?thesis
    proof cases
      case default
      with p show ?thesis by (simp add: default_prediction_def toFixed2_zero)
    next
      case found
      from list_all2_right [OF found(4) p] obtain x where
        x: "x \<in> set (take 3 ys)" "normalize_pred x = Inr p" by blast
      from x(1) have "x \<in> set ys" by (rule in_set_takeD)
      with js_sort_mset [OF found(3)] have xs: "x \<in> set xs" by (metis set_mset_mset)
      from normalize_pred_confidence [OF x(2)] show ?thesis
      proof
        assume "confidence p = toFixed2 0"
        then show ?thesis by simp
      next
        assume "\<exists>r. property x ''confidence'' = JNum r \<and> confidence p = toFixed2 r"
        then obtain r where r: "property x ''confidence'' = JNum r" "confidence p = toFixed2 r"
          by blast
        with xs found(1,2) have "r \<in> set (response_confidences w b)"
          by (force simp: response_confidences_def)
        with r(2) show ?thesis by auto
      qed
    qed
  qed
  then obtain r where "r \<in> set (0 # response_confidences w b)" "confidence p = toFixed2 r"
    by blast
  with toFixed2_facts [of r] show ?thesis by metis
qed

theorem confidence_rounded_witness:
  "\<lparr>breed = JStr ''Beagle'', confidence = 1 / 5\<rparr>
     \<in> set (fst (fst (inference example_world example_blob)))
   \<and> response_confidences example_world example_blob = [201 / 1000, 109 / 125]
   \<and> toFixed2 (201 / 1000) = 1 / 5
   \<and> rounded_2dp (201 / 1000) (1 / 5)
   \<and> (\<exists>r. r \<in> set (0 # response_confidences example_world example_blob)
          \<and> 1 / 5 = toFixed2 r \<and> 0 \<le> r \<and> r \<le> 1)"
proof -
  have c: "response_confidences example_world example_blob = [201 / 1000, 109 / 125]"
    by (simp add: response_confidences_def call_example example_result_def beagle_def
        labrador_def)
  have t: "toFixed2 (201 / 1000) = 1 / 5" "toFixed2 (109 / 125) = 87 / 100"
    by (simp_all add: toFixed2_def)
  have m: "\<lparr>breed = JStr ''Beagle'', confidence = 1 / 5\<rparr>
     \<in> set (fst (fst (inference example_world example_blob)))"
    by (simp add: inference_example)
  have e: "\<exists>r. r \<in> set (0 # response_confidences example_world example_blob)
          \<and> 1 / 5 = toFixed2 r \<and> 0 \<le> r \<and> r \<le> 1"
    by (rule exI [of _ "201 / 1000"]) (simp add: c t)
  have r: "rounded_2dp (201 / 1000) (1 / 5)"
    by (simp add: rounded_2dp_def)
  from confidence_rounded [OF m] c t(1) m e r show ?thesis
    by blast
qed

text \<open>
  C9 fails as stated: a confidence field of 1.5 comes out as 1.5.
\<close>

theorem confidence_above_one:
  "fst (inference (example_world\<lparr>fetch := answer overconfident_result\<rparr>) example_blob) =
     ([\<lparr>breed = JStr ''Gir'', confidence = 3 / 2\<rparr>], \<lparr>breed = JStr ''Gir'', confidence = 3 / 2\<rparr>)
   \<and> \<not> confidence \<lparr>breed = JStr ''Gir'', confidence = 3 / 2\<rparr> \<le> 1"
  by (simp add: inference_def call_classifier_def example_world_def answer_def ok_def
      example_blob_def overconfident_result_def extract_predictions_def greater_zero_def
      normalize_pred_def toFixed2_def Let_def)

section \<open>Stages and their traces\<close>

lemma datastore_effect: "is_datastore e \<Longrightarrow> is_effect e"
  by (cases e) auto

lemma no_effects_no_datastore: "filter is_effect ev = [] \<Longrightarrow> filter is_datastore ev = []"
  by (auto simp: filter_empty_conv dest: datastore_effect)

lemma validate_no_effects: "filter is_effect (snd (validate req)) = []"
  by (auto simp: validate_def Let_def split: sum.splits jsval.splits)

lemma validate_no_datastore: "filter is_datastore (snd (validate req)) = []"
  by (rule no_effects_no_datastore) (rule validate_no_effects)


lemma storage_attempt_no_datastore: "filter is_datastore (snd (storage_attempt w u)) = []"
  by (auto simp: storage_attempt_def Let_def split: option.splits sum.splits)

lemma resolve_image_no_datastore: "filter is_datastore (snd (resolve_image w u)) = []"
  using storage_attempt_no_datastore [of w u]
  by (auto simp: resolve_image_def Let_def image_obtained_def
      split: prod.splits option.splits fetch_result.splits sum.splits)

lemma call_classifier_no_datastore: "filter is_datastore (snd (call_classifier w b)) = []"
  by (auto simp: call_classifier_def Let_def split: sum.splits fetch_result.splits)

lemma extract_no_datastore: "filter is_datastore (snd (extract_predictions w v)) = []"
  by (auto simp: extract_predictions_def split: sum.splits bool.splits jsval.splits)

lemma inference_no_datastore: "filter is_datastore (snd (inference w b)) = []"
proof -
  obtain r1 ev1 where c: "call_classifier w b = (r1, ev1)"
    by (cases "call_classifier w b")
  with call_classifier_no_datastore [of w b] have e1: "filter is_datastore ev1 = []" by simp
  show ?thesis
  proof (cases r1)
    case (Inl e)
    with c e1 show ?thesis by (simp add: inference_def calling_def)
  next
    case (Inr v)
    obtain r2 ev2 where x: "extract_predictions w v = (r2, ev2)"
      by (cases "extract_predictions w v")
    with extract_no_datastore [of w v] have e2: "filter is_datastore ev2 = []" by simp
    from c Inr x e1 e2 show ?thesis
      by (cases r2) (simp_all add: inference_def calling_def)
  qed
qed

text \<open>A request that passes validation and obtains its image ends in the persistence stage.\<close>

lemma handler_reaches:
  assumes "req_method req \<noteq> ''OPTIONS''" and "validate req = (Continue f, ev1)"
    and "resolve_image w (image_url f) = (Inr b, ev2)"
    and "inference w b = ((preds, tp), ev3)"
  shows "handler w req =
           (fst (persist w f preds tp), ev1 @ ev2 @ ev3 @ snd (persist w f preds tp))"
  using assms by (simp add: handler_def try_body_def split: prod.splits)



text \<open>The two outcomes of the upsert.\<close>

lemma persist_upsert_failed:
  assumes "upsert w (upsert_call_of f tp) = Inl m"
  shows "persist w f preds tp =
           (json_response 500 (ErrorBody ''Failed to create animal record'' (Some m)),
            [Upsert (upsert_call_of f tp),
             Console LError ''Error creating animal record:'' [JStr m]])"
  using assms by (simp add: persist_def)

lemma persist_upsert_ok:
  assumes "upsert w (upsert_call_of f tp) = Inr rid"
  shows "fst (persist w f preds tp) = success_response rid preds tp (now_end w - now_start w)"
    and "filter is_datastore (snd (persist w f preds tp)) =
           [Upsert (upsert_call_of f tp),
            Insert (insert_call_of f rid preds (now_end w - now_start w))]"
    and "insert_log w (insert_call_of f rid preds (now_end w - now_start w)) = Some m \<Longrightarrow>
           Console LError ''Error logging prediction:'' [JStr m] \<in> set (snd (persist w f preds tp))"
  using assms by (auto simp: persist_def Let_def split: option.splits)


text \<open>The example request on worlds that agree with the example world.\<close>

lemma example_method: "req_method example_request \<noteq> ''OPTIONS''"
  by (simp add: example_request_def)

lemma validate_example: "fst (validate example_request) = Continue example_fields"
  by (simp add: validate_def example_request_def example_fields_def example_url_def Let_def)

lemma validate_example_pair:
  "validate example_request = (Continue example_fields, snd (validate example_request))"
  using validate_example by (simp add: prod_eq_iff)

lemma resolve_example:
  "url_pathname w = url_pathname example_world \<Longrightarrow>
   storage_download w = storage_download example_world \<Longrightarrow>
   fst (resolve_image w example_url) = Inr example_blob"
  by (simp add: resolve_image_def storage_attempt_def example_world_def path_parts_def
      element_at_def example_url_def Let_def)

lemma resolve_example_pair:
  assumes "url_pathname w = url_pathname example_world"
    and "storage_download w = storage_download example_world"
  shows "resolve_image w (image_url example_fields) =
           (Inr example_blob, snd (resolve_image w (image_url example_fields)))"
  using resolve_example [OF assms] by (simp add: prod_eq_iff example_fields_def)

lemma inference_example_pair:
  assumes "fetch w = fetch example_world" and "encode_base64 w = encode_base64 example_world"
  shows "inference w example_blob =
     (([\<lparr>breed = JStr ''Labrador'', confidence = 87 / 100\<rparr>,
        \<lparr>breed = JStr ''Beagle'', confidence = 1 / 5\<rparr>],
       \<lparr>breed = JStr ''Labrador'', confidence = 87 / 100\<rparr>), snd (inference w example_blob))"
  using inference_example [OF assms] by (simp add: prod_eq_iff)


section \<open>Claims about persistence\<close>

text \<open>
  C3. For every request that reaches the persistence stage: if the upsert of the
  AnimalRecord fails, the response is an HTTP 500 carrying the datastore's error message
  and the upsert is the only datastore call of the request (the insert is never
  attempted); if the upsert succeeds, the response is the success payload with status 200
  whatever the insert of the PredictionLogEntry returns, and a failing insert is logged.
\<close>

theorem persistence_failures:
  assumes "req_method req \<noteq> ''OPTIONS''" and "validate req = (Continue f, ev1)"
    and "resolve_image w (image_url f) = (Inr b, ev2)"
    and "inference w b = ((preds, tp), ev3)"
  shows "(\<forall>m. upsert w (upsert_call_of f tp) = Inl m \<longrightarrow>
            fst (handler w req) =
              \<lparr>status_code = 500, headers = json_headers,
               body = ErrorBody ''Failed to create animal record'' (Some m)\<rparr>
          \<and> filter is_datastore (snd (handler w req)) = [Upsert (upsert_call_of f tp)])
       \<and> (\<forall>rid. upsert w (upsert_call_of f tp) = Inr rid \<longrightarrow>
            fst (handler w req) = success_response rid preds tp (now_end w - now_start w)
          \<and> status_code (fst (handler w req)) = 200
          \<and> (\<forall>m. insert_log w (insert_call_of f rid preds (now_end w - now_start w)) = Some m \<longrightarrow>
                Console LError ''Error logging prediction:'' [JStr m] \<in> set (snd (handler w req))))"
proof -
  have h: "handler w req =
      (fst (persist w f preds tp), ev1 @ ev2 @ ev3 @ snd (persist w f preds tp))"
    by (rule handler_reaches [OF assms])
  have e: "filter is_datastore ev1 = []" "filter is_datastore ev2 = []"
    "filter is_datastore ev3 = []"
    using validate_no_datastore [of req] assms(2)
      resolve_image_no_datastore [of w "image_url f"] assms(3)
      inference_no_datastore [of w b] assms(4) by simp_all
  show ?thesis
    by (auto simp: h e persist_upsert_failed persist_upsert_ok json_response_def
        success_response_def)
qed

theorem persistence_failures_witness:
  "fst (handler datastore_down example_request) =
     \<lparr>status_code = 500, headers = json_headers,
      body = ErrorBody ''Failed to create animal record''
               (Some ''permission denied for table animal_records'')\<rparr>
   \<and> filter is_datastore (snd (handler datastore_down example_request)) =
       [Upsert (upsert_call_of example_fields \<lparr>breed = JStr ''Labrador'', confidence = 87 / 100\<rparr>)]
   \<and> fst (handler log_down example_request) =
       success_response ''rec-1''
         [\<lparr>breed = JStr ''Labrador'', confidence = 87 / 100\<rparr>,
          \<lparr>breed = JStr ''Beagle'', confidence = 1 / 5\<rparr>]
         \<lparr>breed = JStr ''Labrador'', confidence = 87 / 100\<rparr> 250
   \<and> status_code (fst (handler log_down example_request)) = 200
   \<and> Console LError ''Error logging prediction:''
        [JStr ''permission denied for table breed_predictions'']
       \<in> set (snd (handler log_down example_request))"
proof -
  have r1: "resolve_image datastore_down (image_url example_fields) =
      (Inr example_blob, snd (resolve_image datastore_down (image_url example_fields)))"
    by (rule resolve_example_pair) (simp_all add: datastore_down_def)
  have i1: "inference datastore_down example_blob =
     (([\<lparr>breed = JStr ''Labrador'', confidence = 87 / 100\<rparr>,
        \<lparr>breed = JStr ''Beagle'', confidence = 1 / 5\<rparr>],
       \<lparr>breed = JStr ''Labrador'', confidence = 87 / 100\<rparr>),
      snd (inference datastore_down example_blob))"
    by (rule inference_example_pair) (simp_all add: datastore_down_def)
  have r2: "resolve_image log_down (image_url example_fields) =
      (Inr example_blob, snd (resolve_image log_down (image_url example_fields)))"
    by (rule resolve_example_pair) (simp_all add: log_down_def)
  have i2: "inference log_down example_blob =
     (([\<lparr>breed = JStr ''Labrador'', confidence = 87 / 100\<rparr>,
        \<lparr>breed = JStr ''Beagle'', confidence = 1 / 5\<rparr>],
       \<lparr>breed = JStr ''Labrador'', confidence = 87 / 100\<rparr>),
      snd (inference log_down example_blob))"
    by (rule inference_example_pair) (simp_all add: log_down_def)
  have u1: "upsert datastore_down u = Inl ''permission denied for table animal_records''" for u
    by (simp add: datastore_down_def)
  have u2: "upsert log_down u = Inr ''rec-1''"
    "insert_log log_down i = Some ''permission denied for table breed_predictions''"
    "now_end log_down - now_start log_down = 250" for u i
    by (simp_all add: log_down_def example_world_def)
  show ?thesis
    using persistence_failures [OF example_method validate_example_pair r1 i1]
      persistence_failures [OF example_method validate_example_pair r2 i2]
    by (simp add: u1 u2 success_response_def)
qed



section \<open>Degradation of the Inference Client\<close>







section \<open>Claims about request validation\<close>

text \<open>
  C5. For every request whose body is a JSON object in which one of \<^verbatim>\<open>image_url\<close>,
  \<^verbatim>\<open>animal_id\<close>, \<^verbatim>\<open>user_id\<close>, \<^verbatim>\<open>animal_type\<close> is absent or empty (its value is not
  truthy), the handler returns status 400 with the message that enumerates the four
  required fields, and its trace is empty: no storage, inference or datastore operation,
  not even console output.
\<close>

theorem missing_field_rejected:
  assumes "req_method req \<noteq> ''OPTIONS''" and "req_json req = Inr (JObj kvs)"
    and "k \<in> set required_fields" and "missing (JObj kvs) k"
  shows "handler w req =
           (\<lparr>status_code = 400, headers = json_headers,
             body = ErrorBody ''Missing required fields: image_url, animal_id, user_id, animal_type''
                      None\<rparr>, [])"
proof -
  from assms(3,4) have
    "\<not> truthy (property (JObj kvs) ''image_url'') \<or> \<not> truthy (property (JObj kvs) ''animal_id'')
     \<or> \<not> truthy (property (JObj kvs) ''user_id'') \<or> \<not> truthy (property (JObj kvs) ''animal_type'')"
    by (auto simp: required_fields_def missing_def)
  then have "validate req =
      (Returned (json_response 400 (ErrorBody missing_fields_message None)), [])"
    using assms(2) by (auto simp: validate_def Let_def)
  then show ?thesis
    using assms(1)
    by (simp add: handler_def try_body_def json_response_def missing_fields_message_def)
qed

text \<open>The animal's identifier is empty and its type is absent.\<close>

theorem missing_field_witness:
  "missing (JObj [(''image_url'', JStr example_url), (''animal_id'', JStr ''''),
                  (''user_id'', JStr ''U1'')]) ''animal_type''
   \<and> handler example_world
        \<lparr>req_method = ''POST'',
         req_json = Inr (JObj [(''image_url'', JStr example_url), (''animal_id'', JStr ''''),
                               (''user_id'', JStr ''U1'')])\<rparr> =
       (\<lparr>status_code = 400, headers = json_headers,
         body = ErrorBody ''Missing required fields: image_url, animal_id, user_id, animal_type''
                  None\<rparr>, [])"
  using missing_field_rejected
    [of "\<lparr>req_method = ''POST'',
         req_json = Inr (JObj [(''image_url'', JStr example_url), (''animal_id'', JStr ''''),
                               (''user_id'', JStr ''U1'')])\<rparr>"
        "[(''image_url'', JStr example_url), (''animal_id'', JStr ''''), (''user_id'', JStr ''U1'')]"
        "''animal_type''" example_world]
  by (simp add: missing_def required_fields_def)

text \<open>
  C8. For every request whose body is a JSON object with all four fields present and
  non-empty, where \<^verbatim>\<open>image_url\<close> is a string that does not begin with \<^verbatim>\<open>http\<close> (and
  \<^verbatim>\<open>animal_id\<close> and \<^verbatim>\<open>animal_type\<close> can be printed, as every string can), the handler
  throws the error \<^verbatim>\<open>Invalid image URL provided\<close>; the top-level \<^verbatim>\<open>catch\<close> turns it into
  a response with status 500, not 400, whose \<^verbatim>\<open>details\<close> field is the message of the
  error; no collaborator is called.
\<close>

theorem invalid_url_is_500:
  assumes "req_method req \<noteq> ''OPTIONS''" and "req_json req = Inr (JObj kvs)"
    and "\<forall>k\<in>set required_fields. \<not> missing (JObj kvs) k"
    and "property (JObj kvs) ''image_url'' = JStr s" and "\<not> prefix ''http'' s"
    and "\<not> template_throws (property (JObj kvs) ''animal_id'')"
    and "\<not> template_throws (property (JObj kvs) ''animal_type'')"
  shows "fst (try_body w req) = Inl (Error ''Invalid image URL provided'')
       \<and> fst (handler w req) =
           \<lparr>status_code = 500, headers = json_headers,
            body = ErrorBody ''Internal server error'' (Some ''Invalid image URL provided'')\<rparr>
       \<and> filter is_effect (snd (handler w req)) = []"
proof -
  from assms(3) have t:
    "truthy (property (JObj kvs) ''image_url'')" "truthy (property (JObj kvs) ''animal_id'')"
    "truthy (property (JObj kvs) ''user_id'')" "truthy (property (JObj kvs) ''animal_type'')"
    by (simp_all add: required_fields_def missing_def)
  have g: "get_prop (JObj kvs) ''image_url'' = Inr (JStr s)"
    using assms(4) by simp
  have "fst (validate req) = Threw (Error ''Invalid image URL provided'')"
    using assms(2,5,6,7) t g assms(4) by (simp add: validate_def Let_def)
  then obtain ev where v: "validate req = (Threw (Error ''Invalid image URL provided''), ev)"
    by (metis prod.collapse)
  with validate_no_effects [of req] have "filter is_effect ev = []" by simp
  with v assms(1) show ?thesis
    by (simp add: handler_def try_body_def json_response_def)
qed

theorem invalid_url_witness:
  "\<not> prefix ''http'' ''ftp://host/abc.jpg''
   \<and> fst (handler example_world
        \<lparr>req_method = ''POST'',
         req_json = Inr (JObj [(''image_url'', JStr ''ftp://host/abc.jpg''),
                               (''animal_id'', JStr ''A1''), (''user_id'', JStr ''U1''),
                               (''animal_type'', JStr ''dog'')])\<rparr>) =
       \<lparr>status_code = 500, headers = json_headers,
        body = ErrorBody ''Internal server error'' (Some ''Invalid image URL provided'')\<rparr>"
  using invalid_url_is_500
    [of "\<lparr>req_method = ''POST'',
         req_json = Inr (JObj [(''image_url'', JStr ''ftp://host/abc.jpg''),
                               (''animal_id'', JStr ''A1''), (''user_id'', JStr ''U1''),
                               (''animal_type'', JStr ''dog'')])\<rparr>"
        "[(''image_url'', JStr ''ftp://host/abc.jpg''),
                               (''animal_id'', JStr ''A1''), (''user_id'', JStr ''U1''),
                               (''animal_type'', JStr ''dog'')]"
        "''ftp://host/abc.jpg''" example_world]
  by (simp add: missing_def required_fields_def)

text \<open>
  C10. For every request other than the preflight whose body cannot be parsed as JSON,
  the handler returns status 500 with the error \<^verbatim>\<open>Internal server error\<close> and the
  parser's message as \<^verbatim>\<open>details\<close>, and calls no collaborator.
\<close>

theorem unparseable_body_is_500:
  assumes "req_method req \<noteq> ''OPTIONS''" and "req_json req = Inl e"
  shows "fst (handler w req) =
           \<lparr>status_code = 500, headers = json_headers,
            body = ErrorBody ''Internal server error'' (Some (message e))\<rparr>
       \<and> filter is_effect (snd (handler w req)) = []"
  using assms by (simp add: handler_def try_body_def validate_def json_response_def)

theorem unparseable_body_witness:
  "req_method \<lparr>req_method = ''POST'', req_json = Inl (SyntaxError ''Unexpected end of JSON input'')\<rparr>
     \<noteq> ''OPTIONS''
   \<and> fst (handler example_world
            \<lparr>req_method = ''POST'', req_json = Inl (SyntaxError ''Unexpected end of JSON input'')\<rparr>) =
       \<lparr>status_code = 500, headers = json_headers,
        body = ErrorBody ''Internal server error'' (Some ''Unexpected end of JSON input'')\<rparr>
   \<and> filter is_effect
        (snd (handler example_world
            \<lparr>req_method = ''POST'', req_json = Inl (SyntaxError ''Unexpected end of JSON input'')\<rparr>)) = []"
  using unparseable_body_is_500
    [of "\<lparr>req_method = ''POST'', req_json = Inl (SyntaxError ''Unexpected end of JSON input'')\<rparr>"
        "SyntaxError ''Unexpected end of JSON input''" example_world]
  by simp

section \<open>Claims about the Image Resolver\<close>




text \<open>
  Every path with a segment \<^verbatim>\<open>public\<close> that is followed by a further segment splits at
  its first \<^verbatim>\<open>public\<close>, which is followed by a segment too.
\<close>

lemma first_public:
  assumes "parts = pre' @ ''public'' # b' # rest'"
  shows "\<exists>pre bucket rest. parts = pre @ ''public'' # bucket # rest \<and> ''public'' \<notin> set pre"
proof -
  from assms have "''public'' \<in> set parts" by simp
  then obtain pre post where s: "parts = pre @ ''public'' # post" "''public'' \<notin> set pre"
    by (auto dest: split_list_first)
  have "post \<noteq> []"
  proof
    assume e: "post = []"
    with s(1) assms have "butlast (pre @ [''public'']) = butlast ((pre' @ [''public'']) @ b' # rest')"
      by simp
    then have "pre = pre' @ ''public'' # butlast (b' # rest')"
      by (simp add: butlast_append del: append_assoc)
    with s(2) show False by simp
  qed
  then obtain bucket rest where "post = bucket # rest" by (cases post) auto
  with s show ?thesis by blast
qed












end
